theory Spec2Isabelle
  imports Main
begin

section \<open>Python values\<close>

text \<open>
  The extractors of \<^verbatim>\<open>ose_core/pipelines/extractors.py\<close> read JSON records through
  pandas. A cell or a nested JSON value is one of: \<^verbatim>\<open>None\<close>, the float NaN (the missing
  marker of pandas), a bool, an int, a str, a list, or a dict with string keys. A dict is
  an association list in insertion order. The characters of a str are the code points
  below 256. Floats other than NaN are not part of this model.
\<close>

datatype pyval =
    VNone
  | VNaN
  | VBool bool
  | VInt int
  | VStr string
  | VList "pyval list"
  | VDict "(string \<times> pyval) list"

datatype py_error = ValueError | TypeError | OverflowError

type_synonym pydict = "(string \<times> pyval) list"

text \<open>\<^verbatim>\<open>d.get(key, default)\<close> and \<^verbatim>\<open>key in d\<close>.\<close>

definition dict_get :: "pydict \<Rightarrow> string \<Rightarrow> pyval \<Rightarrow> pyval" where
  "dict_get d k dflt = (case map_of d k of Some v \<Rightarrow> v | None \<Rightarrow> dflt)"

definition dict_has :: "pydict \<Rightarrow> string \<Rightarrow> bool" where
  "dict_has d k = (map_of d k \<noteq> None)"

text \<open>\<^verbatim>\<open>isinstance(v, dict)\<close>, \<^verbatim>\<open>isinstance(v, list)\<close>.\<close>

fun is_dict :: "pyval \<Rightarrow> bool" where
  "is_dict (VDict d) = True"
| "is_dict v = False"

fun is_list :: "pyval \<Rightarrow> bool" where
  "is_list (VList xs) = True"
| "is_list v = False"

text \<open>Truth value of a Python object (\<^verbatim>\<open>if v:\<close>). NaN is a non-zero float: true.\<close>

fun py_truthy :: "pyval \<Rightarrow> bool" where
  "py_truthy VNone = False"
| "py_truthy VNaN = True"
| "py_truthy (VBool b) = b"
| "py_truthy (VInt n) = (n \<noteq> 0)"
| "py_truthy (VStr s) = (s \<noteq> [])"
| "py_truthy (VList xs) = (xs \<noteq> [])"
| "py_truthy (VDict d) = (d \<noteq> [])"

subsection \<open>pandas.isna used as a condition\<close>

text \<open>
  \<^verbatim>\<open>pd.isna(v)\<close> is a bool for a scalar (true for None and NaN) and \<^verbatim>\<open>False\<close> for a
  dict. For a list it is the element-wise array over \<^verbatim>\<open>np.asarray(v, dtype=object)\<close>, and
  taking the truth value of that array (\<^verbatim>\<open>if pd.isna(v):\<close>) raises ValueError unless the
  array has exactly one element, which is the case exactly for a nest of one-element
  lists around a value that is not a list. (NumPy before 2.2 gave False with a
  deprecation warning for an array of no element; the model follows NumPy 2.2 and later,
  where that raises too.)
\<close>

fun isna_truth :: "pyval \<Rightarrow> py_error + bool" where
  "isna_truth VNone = Inr True"
| "isna_truth VNaN = Inr True"
| "isna_truth (VList [x]) = isna_truth x"
| "isna_truth (VList xs) = Inl ValueError"
| "isna_truth v = Inr False"

text \<open>Element-wise \<^verbatim>\<open>Series.isna()\<close> on one cell of an object column.\<close>

fun cell_isna :: "pyval \<Rightarrow> bool" where
  "cell_isna VNone = True"
| "cell_isna VNaN = True"
| "cell_isna v = False"

subsection \<open>Decimal digits\<close>

definition is_digit :: "char \<Rightarrow> bool" where
  "is_digit c = (48 \<le> (of_char c :: nat) \<and> (of_char c :: nat) \<le> 57)"

definition digit_val :: "char \<Rightarrow> nat" where
  "digit_val c = of_char c - 48"

definition digit_char :: "nat \<Rightarrow> char" where
  "digit_char d = char_of (48 + d)"

text \<open>The decimal numeral of a natural number, as \<^verbatim>\<open>str(n)\<close> writes it.\<close>

fun digits_nat :: "nat \<Rightarrow> string" where
  "digits_nat n =
     (if n < 10 then [digit_char n] else digits_nat (n div 10) @ [digit_char (n mod 10)])"

declare digits_nat.simps [simp del]

text \<open>The number a string of digits denotes (most significant digit first).\<close>

definition nat_of_digits :: "string \<Rightarrow> nat" where
  "nat_of_digits s = foldl (\<lambda>acc c. 10 * acc + digit_val c) 0 s"

definition str_int :: "int \<Rightarrow> string" where
  "str_int i = (if i < 0 then CHR ''-'' # digits_nat (nat (- i)) else digits_nat (nat i))"

text \<open>
  \<^verbatim>\<open>f"{n:014d}"\<close>: sign-aware zero padding to a width of 14; a longer numeral is not cut.
\<close>

definition zfill :: "nat \<Rightarrow> string \<Rightarrow> string" where
  "zfill w s = replicate (w - length s) (CHR ''0'') @ s"

definition fmt014 :: "int \<Rightarrow> string" where
  "fmt014 n =
     (if n < 0 then CHR ''-'' # zfill 13 (digits_nat (nat (- n)))
      else zfill 14 (digits_nat (nat n)))"

subsection \<open>str and repr\<close>

definition hex_digit :: "nat \<Rightarrow> char" where
  "hex_digit d = (if d < 10 then char_of (48 + d) else char_of (87 + d))"

definition is_printable :: "char \<Rightarrow> bool" where
  "is_printable c =
     (let n = (of_char c :: nat)
      in (32 \<le> n \<and> n < 127) \<or> (161 \<le> n \<and> n \<noteq> 173))"

definition repr_char :: "char \<Rightarrow> char \<Rightarrow> string" where
  "repr_char q c =
     (if c = q \<or> c = CHR 0x5C then [CHR 0x5C, c]
      else if c = CHR 0x09 then [CHR 0x5C, CHR ''t'']
      else if c = CHR 0x0A then [CHR 0x5C, CHR ''n'']
      else if c = CHR 0x0D then [CHR 0x5C, CHR ''r'']
      else if is_printable c then [c]
      else [CHR 0x5C, CHR ''x'', hex_digit ((of_char c :: nat) div 16),
            hex_digit ((of_char c :: nat) mod 16)])"

definition repr_str :: "string \<Rightarrow> string" where
  "repr_str s =
     (let q = (if CHR 0x27 \<in> set s \<and> CHR 0x22 \<notin> set s then CHR 0x22 else CHR 0x27)
      in q # concat (map (repr_char q) s) @ [q])"

fun join :: "string \<Rightarrow> string list \<Rightarrow> string" where
  "join sep [] = []"
| "join sep [x] = x"
| "join sep (x # y # ys) = x @ sep @ join sep (y # ys)"

fun py_repr :: "pyval \<Rightarrow> string" where
  "py_repr VNone = ''None''"
| "py_repr VNaN = ''nan''"
| "py_repr (VBool b) = (if b then ''True'' else ''False'')"
| "py_repr (VInt n) = str_int n"
| "py_repr (VStr s) = repr_str s"
| "py_repr (VList xs) = ''['' @ join '', '' (map py_repr xs) @ '']''"
| "py_repr (VDict d) =
     ''{'' @ join '', '' (map (\<lambda>kv. repr_str (fst kv) @ '': '' @ py_repr (snd kv)) d) @ ''}''"

fun py_str :: "pyval \<Rightarrow> string" where
  "py_str (VStr s) = s"
| "py_str v = py_repr v"

subsection \<open>str.strip\<close>

definition is_space :: "char \<Rightarrow> bool" where
  "is_space c =
     (let n = (of_char c :: nat)
      in (9 \<le> n \<and> n \<le> 13) \<or> (28 \<le> n \<and> n \<le> 32) \<or> n = 133 \<or> n = 160)"

definition py_strip :: "string \<Rightarrow> string" where
  "py_strip s = rev (dropWhile is_space (rev (dropWhile is_space s)))"

subsection \<open>float(s) followed by int(...)\<close>

text \<open>
  \<^verbatim>\<open>int(float(s))\<close> for a str \<open>s\<close> without surrounding white space, as CPython
  computes it. \<^verbatim>\<open>float\<close> accepts an underscore only between two digits and removes it;
  then an optional sign is followed by \<^verbatim>\<open>inf\<close>, \<^verbatim>\<open>infinity\<close> or \<^verbatim>\<open>nan\<close> in any case, or by
  a decimal numeral: digits with an optional point, at least one digit in all, and an
  optional exponent \<^verbatim>\<open>e\<close> with an optional sign and at least one digit. Anything else
  raises ValueError. The numeral is rounded to the nearest double, ties to even, and
  \<^verbatim>\<open>int\<close> cuts the fraction off; \<^verbatim>\<open>int\<close> raises OverflowError on an infinity and
  ValueError on NaN.
\<close>

fun underscores_ok :: "char \<Rightarrow> string \<Rightarrow> bool" where
  "underscores_ok prev [] = (prev \<noteq> CHR ''_'')"
| "underscores_ok prev (c # cs) =
     (if c = CHR ''_'' then is_digit prev \<and> underscores_ok c cs
      else (prev = CHR ''_'' \<longrightarrow> is_digit c) \<and> underscores_ok c cs)"

definition to_lower :: "char \<Rightarrow> char" where
  "to_lower c =
     (if 65 \<le> (of_char c :: nat) \<and> (of_char c :: nat) \<le> 90
      then char_of ((of_char c :: nat) + 32) else c)"

datatype float_lit = LitInf | LitNaN | LitDec nat int

definition split_sign :: "string \<Rightarrow> bool \<times> string" where
  "split_sign s =
     (case s of
        [] \<Rightarrow> (False, [])
      | c # cs \<Rightarrow>
          if c = CHR ''-'' then (True, cs)
          else if c = CHR ''+'' then (False, cs)
          else (False, s))"

text \<open>The exponent part: nothing, or \<^verbatim>\<open>e\<close>, an optional sign and digits to the end.\<close>

definition parse_exponent :: "string \<Rightarrow> int option" where
  "parse_exponent s =
     (case s of
        [] \<Rightarrow> Some 0
      | c # cs \<Rightarrow>
          if c = CHR ''e'' \<or> c = CHR ''E'' then
            (let (neg, ds) = split_sign cs
             in if ds \<noteq> [] \<and> list_all is_digit ds
                then Some (if neg then - int (nat_of_digits ds) else int (nat_of_digits ds))
                else None)
          else None)"

text \<open>A decimal numeral denotes \<open>m * 10 ^ e\<close>: the result is \<open>LitDec m e\<close>.\<close>

definition parse_decimal :: "string \<Rightarrow> float_lit option" where
  "parse_decimal s =
     (let ds1 = takeWhile is_digit s;
          r1 = dropWhile is_digit s;
          ds2 = (case r1 of [] \<Rightarrow> [] | c # cs \<Rightarrow>
                   if c = CHR ''.'' then takeWhile is_digit cs else []);
          r2 = (case r1 of [] \<Rightarrow> [] | c # cs \<Rightarrow>
                   if c = CHR ''.'' then dropWhile is_digit cs else r1)
      in if ds1 = [] \<and> ds2 = [] then None
         else (case parse_exponent r2 of
                 None \<Rightarrow> None
               | Some ex \<Rightarrow> Some (LitDec (nat_of_digits (ds1 @ ds2)) (ex - int (length ds2)))))"

definition parse_float_lit :: "string \<Rightarrow> (bool \<times> float_lit) option" where
  "parse_float_lit s =
     (if \<not> underscores_ok (CHR 0x00) s then None
      else
        (let (neg, body) = split_sign (filter (\<lambda>c. c \<noteq> CHR ''_'') s);
             low = map to_lower body
         in if low = ''inf'' \<or> low = ''infinity'' then Some (neg, LitInf)
            else if low = ''nan'' then Some (neg, LitNaN)
            else map_option (Pair neg) (parse_decimal body)))"

text \<open>\<^verbatim>\<open>n.bit_length()\<close>.\<close>

fun bit_length :: "nat \<Rightarrow> nat" where
  "bit_length n = (if n = 0 then 0 else Suc (bit_length (n div 2)))"

declare bit_length.simps [simp del]

text \<open>Rounding a quotient to the nearest integer, ties to the even one.\<close>

definition round_half_even :: "nat \<Rightarrow> nat \<Rightarrow> nat" where
  "round_half_even a b =
     (let q = a div b; r = a mod b
      in if b < 2 * r \<or> (2 * r = b \<and> odd q) then q + 1 else q)"

text \<open>
  The integer part of the double nearest to \<open>a / b\<close> (for \<open>b > 0\<close>): a double holds a
  53-bit significand \<open>m\<close> and a binary exponent \<open>e\<close>, here with
  \<open>e = bit_length (a div b) - 53\<close>. A quotient below one half rounds to at most one
  half. \<open>None\<close> is the overflow to infinity, at \<open>double_overflow\<close>.
\<close>

definition double_overflow :: nat where
  "double_overflow = 2 ^ 1024"

definition trunc_double :: "nat \<Rightarrow> nat \<Rightarrow> nat option" where
  "trunc_double a b =
     (if 2 * a < b then Some 0
      else
        (let k = bit_length (a div b)
         in if 53 \<le> k then
              (let m = round_half_even a (b * 2 ^ (k - 53))
               in if double_overflow \<le> m * 2 ^ (k - 53) then None else Some (m * 2 ^ (k - 53)))
            else Some (round_half_even (a * 2 ^ (53 - k)) b div 2 ^ (53 - k))))"

definition int_of_float_str :: "string \<Rightarrow> py_error + int" where
  "int_of_float_str s =
     (case parse_float_lit s of
        None \<Rightarrow> Inl ValueError
      | Some (neg, LitInf) \<Rightarrow> Inl OverflowError
      | Some (neg, LitNaN) \<Rightarrow> Inl ValueError
      | Some (neg, LitDec m e) \<Rightarrow>
          (case (if 0 \<le> e then trunc_double (m * 10 ^ nat e) 1
                 else trunc_double m (10 ^ nat (- e))) of
             None \<Rightarrow> Inl OverflowError
           | Some n \<Rightarrow> Inr (if neg then - int n else int n)))"

section \<open>format_siret\<close>

text \<open>
  \<^verbatim>\<open>format_siret\<close> (extractors.py, lines 31 to 46). The first condition stands outside
  the \<^verbatim>\<open>try\<close>, so an error of \<^verbatim>\<open>pd.isna(siret)\<close> used as a condition leaves the function.
  A bool is an int in Python. Every exception of \<^verbatim>\<open>int(float(val_str))\<close> is caught and
  gives \<^verbatim>\<open>val_str\<close>. The outer handler is reached only from \<^verbatim>\<open>int(siret)\<close> on a float,
  which this model has none of after the NaN test.
\<close>

definition format_siret :: "pyval \<Rightarrow> py_error + string" where
  "format_siret siret =
     (case isna_truth siret of
        Inl err \<Rightarrow> Inl err
      | Inr True \<Rightarrow> Inr []
      | Inr False \<Rightarrow>
          if siret = VStr [] \<or> siret = VStr ''nan'' then Inr []
          else
            (case siret of
               VInt n \<Rightarrow> Inr (fmt014 n)
             | VBool b \<Rightarrow> Inr (fmt014 (if b then 1 else 0))
             | _ \<Rightarrow>
                 (let val_str = py_strip (py_str siret)
                  in if val_str \<noteq> [] \<and> val_str \<noteq> ''nan'' then
                       (case int_of_float_str val_str of
                          Inr n \<Rightarrow> Inr (fmt014 n)
                        | Inl err \<Rightarrow> Inr val_str)
                     else Inr [])))"

text \<open>A SIRET in canonical form: 14 decimal digits.\<close>

definition is_siret14 :: "string \<Rightarrow> bool" where
  "is_siret14 s = (length s = 14 \<and> list_all is_digit s)"

section \<open>Rows, dicts and tables\<close>

text \<open>
  A row of a DataFrame (a \<^verbatim>\<open>pd.Series\<close> indexed by column name) and an output row (a
  Python dict) are both association lists from names to values. \<^verbatim>\<open>row.get(key)\<close> is the
  cell, or None when there is no such column.
\<close>

definition row_get :: "pydict \<Rightarrow> string \<Rightarrow> pyval" where
  "row_get row k = dict_get row k VNone"

text \<open>\<^verbatim>\<open>d[k] = v\<close> and \<^verbatim>\<open>d.update(other)\<close>, keeping the insertion order.\<close>

fun dict_set :: "pydict \<Rightarrow> string \<Rightarrow> pyval \<Rightarrow> pydict" where
  "dict_set [] k v = [(k, v)]"
| "dict_set ((k', v') # d) k v = (if k' = k then (k, v) # d else (k', v') # dict_set d k v)"

definition dict_update :: "pydict \<Rightarrow> pydict \<Rightarrow> pydict" where
  "dict_update d other = foldl (\<lambda>acc kv. dict_set acc (fst kv) (snd kv)) d other"

text \<open>
  \<^verbatim>\<open>pd.DataFrame(records)\<close> for a list of dicts: the columns are the keys in the order
  of their first occurrence, and a key a record does not have is NaN in its row.
\<close>

record dataframe =
  df_columns :: "string list"
  df_rows :: "pydict list"

definition df_row :: "string list \<Rightarrow> pydict \<Rightarrow> pydict" where
  "df_row cols r = map (\<lambda>c. (c, dict_get r c VNaN)) cols"

definition DataFrame :: "pydict list \<Rightarrow> dataframe" where
  "DataFrame records =
     (let cols = rev (remdups (rev (concat (map (map fst) records))))
      in \<lparr> df_columns = cols, df_rows = map (df_row cols) records \<rparr>)"

text \<open>Running a function that may raise over a list, stopping at the first error.\<close>

fun map_result :: "('a \<Rightarrow> py_error + 'b) \<Rightarrow> 'a list \<Rightarrow> py_error + 'b list" where
  "map_result f [] = Inr []"
| "map_result f (x # xs) =
     (case f x of
        Inl err \<Rightarrow> Inl err
      | Inr y \<Rightarrow> (case map_result f xs of Inl err \<Rightarrow> Inl err | Inr ys \<Rightarrow> Inr (y # ys)))"

definition empty_index :: pydict where
  "empty_index = [(''company_name'', VStr []), (''siren'', VStr []), (''siret'', VStr [])]"

section \<open>safe_join and the helpers of the row builders\<close>

text \<open>\<^verbatim>\<open>safe_join\<close> (lines 13 to 28), with the separator \<^verbatim>\<open>", "\<close>.\<close>

definition join_item :: "pyval \<Rightarrow> string" where
  "join_item item =
     (case item of
        VDict d \<Rightarrow>
          if dict_has d ''label'' then py_str (dict_get d ''label'' VNone)
          else if dict_has d ''name'' then py_str (dict_get d ''name'' VNone)
          else py_str item
      | _ \<Rightarrow> py_str item)"

definition safe_join :: "pyval \<Rightarrow> string" where
  "safe_join items =
     (case items of
        VList xs \<Rightarrow> join '', '' (map join_item xs)
      | _ \<Rightarrow> if py_truthy items then py_str items else [])"

text \<open>
  \<^verbatim>\<open>safe_get_list\<close> of both \<^verbatim>\<open>extract_chunk\<close> methods (lines 59 to 99 and 210 to 250),
  default None. A cell is never a \<^verbatim>\<open>pd.Series\<close>, and of the values of this model only a
  list is iterable without being a str or a dict. An error of \<^verbatim>\<open>pd.isna\<close> is passed over.
\<close>

definition safe_get_list :: "pyval \<Rightarrow> pyval list option" where
  "safe_get_list v =
     (if v = VNone then None
      else if isna_truth v = Inr True then None
      else (case v of VList xs \<Rightarrow> (if xs \<noteq> [] then Some xs else None) | _ \<Rightarrow> None))"

text \<open>\<^verbatim>\<open>not companies\<close> for a value that is None or a list.\<close>

definition list_falsy :: "pyval list option \<Rightarrow> bool" where
  "list_falsy l = (case l of None \<Rightarrow> True | Some xs \<Rightarrow> xs = [])"

text \<open>
  \<^verbatim>\<open>safe_get_list\<close> inside \<^verbatim>\<open>_create_article_row\<close> (lines 145 to 155), default \<^verbatim>\<open>[]\<close>:
  here an error of \<^verbatim>\<open>pd.isna\<close> gives the default.
\<close>

definition article_safe_get_list :: "pyval \<Rightarrow> pyval list" where
  "article_safe_get_list v =
     (case isna_truth v of
        Inl err \<Rightarrow> []
      | Inr True \<Rightarrow> []
      | Inr False \<Rightarrow> (case v of VList xs \<Rightarrow> xs | _ \<Rightarrow> []))"

text \<open>\<^verbatim>\<open>safe_get_scalar\<close> (lines 166 to 172), default \<^verbatim>\<open>""\<close>.\<close>

definition article_safe_get_scalar :: "pyval \<Rightarrow> string" where
  "article_safe_get_scalar v =
     (case isna_truth v of
        Inl err \<Rightarrow> []
      | Inr True \<Rightarrow> []
      | Inr False \<Rightarrow> (if py_truthy v then py_str v else []))"

text \<open>
  The field of a nested object (author name, country label): lines 129 to 143. The
  value of the key is taken as it is.
\<close>

definition article_nested :: "pyval \<Rightarrow> string \<Rightarrow> pyval" where
  "article_nested v k =
     (case isna_truth v of
        Inl err \<Rightarrow> VStr []
      | Inr True \<Rightarrow> VStr []
      | Inr False \<Rightarrow> (case v of VDict d \<Rightarrow> dict_get d k (VStr []) | _ \<Rightarrow> VStr []))"

section \<open>VectorizedArticleExtractor\<close>

text \<open>\<^verbatim>\<open>_create_article_row\<close> (lines 127 to 191).\<close>

definition create_article_row :: "pydict \<Rightarrow> pydict \<Rightarrow> pydict" where
  "create_article_row row base_index =
     (let author_name = article_nested (row_get row ''author'') ''name'';
          country_label = article_nested (row_get row ''country'') ''label'';
          signals_status = article_safe_get_list (row_get row ''signalsStatus'');
          signals_type = article_safe_get_list (row_get row ''signalsType'');
          sectors = article_safe_get_list (row_get row ''sectors'');
          cities = article_safe_get_list (row_get row ''cities'');
          sources = article_safe_get_list (row_get row ''sources'');
          departments = article_safe_get_list (row_get row ''departments'');
          all_companies = article_safe_get_list (row_get row ''all_companies'');
          companies = article_safe_get_list (row_get row ''companies'')
      in dict_update base_index
           [(''title'', VStr (article_safe_get_scalar (row_get row ''title''))),
            (''publishedAt'', VStr (article_safe_get_scalar (row_get row ''publishedAt''))),
            (''author'', author_name),
            (''signalsStatus'', VStr (safe_join (VList signals_status))),
            (''signalsType'', VStr (safe_join (VList signals_type))),
            (''country'', country_label),
            (''sectors'', VStr (safe_join (VList sectors))),
            (''cities'', VStr (safe_join (VList cities))),
            (''sources'', VStr (safe_join (VList sources))),
            (''departments'', VStr (safe_join (VList departments))),
            (''all_companies_count'', VInt (int (length all_companies))),
            (''companies_count'', VInt (int (length companies)))])"

text \<open>
  The company references of an article row (lines 102 to 107): \<^verbatim>\<open>companies\<close>, else
  \<^verbatim>\<open>all_companies\<close>, else the empty list.
\<close>

definition article_companies :: "pydict \<Rightarrow> pyval list" where
  "article_companies row =
     (let companies = safe_get_list (row_get row ''companies'');
          companies = (if list_falsy companies
                       then safe_get_list (row_get row ''all_companies'') else companies)
      in if list_falsy companies then [] else (case companies of None \<Rightarrow> [] | Some xs \<Rightarrow> xs))"

text \<open>The identity key of one referenced company (lines 114 to 121).\<close>

definition article_base_index :: "pyval \<Rightarrow> py_error + pydict" where
  "article_base_index company =
     (case company of
        VDict d \<Rightarrow>
          (case format_siret (dict_get d ''siret'' (VStr [])) of
             Inl err \<Rightarrow> Inl err
           | Inr siret \<Rightarrow>
               Inr [(''company_name'', dict_get d ''label'' (VStr [])),
                    (''siren'', VStr (py_str (dict_get d ''siren'' (VStr [])))),
                    (''siret'', VStr siret)])
      | _ \<Rightarrow> Inr empty_index)"

text \<open>The rows one input row adds to \<^verbatim>\<open>articles_expanded\<close> (lines 109 to 122).\<close>

definition article_rows :: "pydict \<Rightarrow> py_error + pydict list" where
  "article_rows row =
     (let companies = article_companies row
      in if companies = [] then Inr [create_article_row row empty_index]
         else map_result
                (\<lambda>company.
                   case article_base_index company of
                     Inl err \<Rightarrow> Inl err
                   | Inr base_index \<Rightarrow> Inr (create_article_row row base_index))
                companies)"

text \<open>
  \<^verbatim>\<open>extract_chunk\<close> (lines 55 to 125): the rows of the chunk in order; the state is the
  list of the tables appended so far. An exception leaves the method.
\<close>

definition articles_expanded :: "dataframe \<Rightarrow> py_error + pydict list" where
  "articles_expanded chunk_df =
     (case map_result article_rows (df_rows chunk_df) of
        Inl err \<Rightarrow> Inl err
      | Inr rs \<Rightarrow> Inr (concat rs))"

definition article_extract_chunk ::
  "pydict list list \<Rightarrow> dataframe \<Rightarrow> py_error + pydict list list" where
  "article_extract_chunk articles_list chunk_df =
     (case articles_expanded chunk_df of
        Inl err \<Rightarrow> Inl err
      | Inr rows \<Rightarrow> Inr (if rows \<noteq> [] then articles_list @ [rows] else articles_list))"

section \<open>VectorizedProjectExtractor\<close>

text \<open>The helpers inside \<^verbatim>\<open>_create_signal_row\<close> (lines 307 to 323 and 374 to 380).\<close>

definition is_not_na :: "pyval \<Rightarrow> bool" where
  "is_not_na v = (case isna_truth v of Inl err \<Rightarrow> False | Inr b \<Rightarrow> \<not> b)"

definition signal_safe_get_list :: "pyval \<Rightarrow> pyval list" where
  "signal_safe_get_list v =
     (if \<not> is_not_na v then []
      else (case v of VList xs \<Rightarrow> xs | _ \<Rightarrow> []))"

definition signal_safe_get_scalar :: "pyval \<Rightarrow> string" where
  "signal_safe_get_scalar v =
     (if \<not> is_not_na v then []
      else if py_truthy v then py_str v else [])"

text \<open>
  The label of \<^verbatim>\<open>country\<close> (lines 325 to 337): the first element of a list, or the
  object itself; of \<^verbatim>\<open>departement\<close> (lines 339 to 349): the first element of a list only.
\<close>

definition first_label :: "pyval list \<Rightarrow> pyval" where
  "first_label xs =
     (case xs of
        [] \<Rightarrow> VStr []
      | x # _ \<Rightarrow> (case x of VDict d \<Rightarrow> dict_get d ''label'' (VStr []) | _ \<Rightarrow> VStr (py_str x)))"

definition signal_country :: "pyval \<Rightarrow> pyval" where
  "signal_country country =
     (if is_not_na country then
        (case country of
           VList xs \<Rightarrow> first_label xs
         | VDict d \<Rightarrow> dict_get d ''label'' (VStr [])
         | _ \<Rightarrow> VStr [])
      else VStr [])"

definition signal_dept :: "pyval \<Rightarrow> pyval" where
  "signal_dept dept =
     (if is_not_na dept then
        (case dept of VList xs \<Rightarrow> first_label xs | _ \<Rightarrow> VStr [])
      else VStr [])"

definition signal_nested :: "pyval \<Rightarrow> string \<Rightarrow> pyval" where
  "signal_nested v k =
     (if is_not_na v then
        (case v of VDict d \<Rightarrow> dict_get d k (VStr []) | _ \<Rightarrow> VStr [])
      else VStr [])"

text \<open>\<^verbatim>\<open>_create_signal_row\<close> (lines 304 to 401).\<close>

definition create_signal_row :: "pydict \<Rightarrow> pydict \<Rightarrow> pydict" where
  "create_signal_row row base_index =
     (let country_label = signal_country (row_get row ''country'');
          dept_label = signal_dept (row_get row ''departement'');
          type_label = signal_nested (row_get row ''type'') ''label'';
          type_id = signal_nested (row_get row ''type'') ''id'';
          statut_label = signal_nested (row_get row ''statut'') ''label'';
          continent = signal_safe_get_list (row_get row ''continent'');
          nature_op = signal_safe_get_list (row_get row ''natureOp'');
          companies = signal_safe_get_list (row_get row ''companies'');
          sirets = signal_safe_get_list (row_get row ''sirets'')
      in dict_update base_index
           [(''continent'', VStr (safe_join (VList continent))),
            (''country'', country_label),
            (''departement'', dept_label),
            (''publishedAt'', VStr (signal_safe_get_scalar (row_get row ''publishedAt''))),
            (''isMain'', VBool True),
            (''type'', type_label),
            (''type_id'', type_id),
            (''createdAt'', VStr (signal_safe_get_scalar (row_get row ''createdAt''))),
            (''statut'', statut_label),
            (''city_label'', VStr (signal_safe_get_scalar (row_get row ''city_label''))),
            (''city_zip_code'', VStr (signal_safe_get_scalar (row_get row ''city_zip_code''))),
            (''natureOp'', VStr (safe_join (VList nature_op))),
            (''companies_count'', VInt (int (length companies))),
            (''sirets_count'', VInt (int (length sirets)))])"

text \<open>
  The two association lists of a signal row (lines 253 to 264): the company references
  from \<^verbatim>\<open>companies\<close>, else \<^verbatim>\<open>companiesmain\<close>, else \<^verbatim>\<open>allCompanies\<close>; and \<^verbatim>\<open>sirets\<close>.
\<close>

definition signal_companies :: "pydict \<Rightarrow> pyval list" where
  "signal_companies row =
     (let companies = safe_get_list (row_get row ''companies'');
          companies = (if list_falsy companies
                       then safe_get_list (row_get row ''companiesmain'') else companies);
          companies = (if list_falsy companies
                       then safe_get_list (row_get row ''allCompanies'') else companies)
      in if list_falsy companies then [] else (case companies of None \<Rightarrow> [] | Some xs \<Rightarrow> xs))"

definition signal_sirets :: "pydict \<Rightarrow> pyval list" where
  "signal_sirets row =
     (let sirets = safe_get_list (row_get row ''sirets'')
      in if list_falsy sirets then [] else (case sirets of None \<Rightarrow> [] | Some xs \<Rightarrow> xs))"

text \<open>The identity key of a company reference (lines 272 to 284).\<close>

definition signal_company_index :: "pyval \<Rightarrow> pydict" where
  "signal_company_index company =
     (case company of
        VDict d \<Rightarrow>
          (let company_id = dict_get d ''id'' (VStr [])
           in [(''company_name'', VStr []),
               (''siren'', VStr (if py_truthy company_id then py_str company_id else [])),
               (''siret'', VStr [])])
      | _ \<Rightarrow>
          [(''company_name'', VStr []),
           (''siren'', VStr (if py_truthy company then py_str company else [])),
           (''siret'', VStr [])])"

text \<open>The identity key of an entry of \<^verbatim>\<open>sirets\<close> (lines 289 to 298).\<close>

definition signal_siret_index :: "pyval \<Rightarrow> py_error + pydict" where
  "signal_siret_index siret_info =
     (case (case siret_info of
              VDict d \<Rightarrow> format_siret (dict_get d ''siret'' (VStr []))
            | _ \<Rightarrow> format_siret siret_info) of
        Inl err \<Rightarrow> Inl err
      | Inr siret \<Rightarrow>
          Inr [(''company_name'', VStr []),
               (''siren'', VStr (if 9 \<le> length siret then take 9 siret else [])),
               (''siret'', VStr siret)])"

text \<open>The rows one input row adds to \<^verbatim>\<open>signals_expanded\<close> (lines 266 to 299).\<close>

definition signal_rows :: "pydict \<Rightarrow> py_error + pydict list" where
  "signal_rows row =
     (let companies = signal_companies row;
          sirets = signal_sirets row
      in if companies = [] \<and> sirets = [] then Inr [create_signal_row row empty_index]
         else
           (case map_result
                   (\<lambda>siret_info.
                      case signal_siret_index siret_info of
                        Inl err \<Rightarrow> Inl err
                      | Inr base_index \<Rightarrow> Inr (create_signal_row row base_index))
                   sirets of
              Inl err \<Rightarrow> Inl err
            | Inr siret_rows \<Rightarrow>
                Inr (map (\<lambda>company. create_signal_row row (signal_company_index company))
                       companies @ siret_rows)))"

definition signals_expanded :: "dataframe \<Rightarrow> py_error + pydict list" where
  "signals_expanded chunk_df =
     (case map_result signal_rows (df_rows chunk_df) of
        Inl err \<Rightarrow> Inl err
      | Inr rs \<Rightarrow> Inr (concat rs))"

definition signal_extract_chunk ::
  "pydict list list \<Rightarrow> dataframe \<Rightarrow> py_error + pydict list list" where
  "signal_extract_chunk signals_list chunk_df =
     (case signals_expanded chunk_df of
        Inl err \<Rightarrow> Inl err
      | Inr rows \<Rightarrow> Inr (if rows \<noteq> [] then signals_list @ [rows] else signals_list))"

section \<open>VectorizedCompanyExtractor\<close>

subsection \<open>The company name column\<close>

text \<open>
  \<^verbatim>\<open>safe_get(df, col, default)\<close> (lines 429 to 440): the column, or one default per row
  when the table has no such column.
\<close>

definition safe_get :: "dataframe \<Rightarrow> string \<Rightarrow> pyval \<Rightarrow> pyval list" where
  "safe_get df col dflt =
     (if col \<in> set (df_columns df) then map (\<lambda>r. row_get r col) (df_rows df)
      else replicate (length (df_rows df)) dflt)"

text \<open>\<^verbatim>\<open>series.empty or series.isna().all()\<close>.\<close>

definition series_blank :: "pyval list \<Rightarrow> bool" where
  "series_blank s = (s = [] \<or> list_all cell_isna s)"

text \<open>
  The loop over the alternative columns (lines 448 to 452): a column of the table
  replaces the series, and the loop stops at the first one that is not blank.
\<close>

fun alt_name_series :: "dataframe \<Rightarrow> pyval list \<Rightarrow> string list \<Rightarrow> pyval list" where
  "alt_name_series df cur [] = cur"
| "alt_name_series df cur (alt_col # rest) =
     (if alt_col \<in> set (df_columns df) then
        (let s = safe_get df alt_col (VStr [])
         in if \<not> series_blank s then s else alt_name_series df s rest)
      else alt_name_series df cur rest)"

definition company_name_series :: "dataframe \<Rightarrow> pyval list" where
  "company_name_series chunk_df =
     (let s = safe_get chunk_df ''socialName'' (VStr [])
      in if series_blank s
         then alt_name_series chunk_df s [''label'', ''name'', ''raison_sociale'']
         else s)"

text \<open>\<^verbatim>\<open>fillna("")\<close> on one cell.\<close>

definition fillna :: "pyval \<Rightarrow> pyval" where
  "fillna v = (if cell_isna v then VStr [] else v)"

text \<open>The \<^verbatim>\<open>company_name\<close> column of \<^verbatim>\<open>base_index\<close> (line 456).\<close>

definition company_names :: "dataframe \<Rightarrow> pyval list" where
  "company_names chunk_df = map fillna (company_name_series chunk_df)"

subsection \<open>The KPI rows\<close>

text \<open>\<^verbatim>\<open>pd.notna(v) and isinstance(v, dict)\<close>, outside any \<^verbatim>\<open>try\<close>.\<close>

definition notna_dict :: "pyval \<Rightarrow> py_error + bool" where
  "notna_dict v = (case isna_truth v of Inl err \<Rightarrow> Inl err | Inr b \<Rightarrow> Inr (\<not> b \<and> is_dict v))"

text \<open>\<^verbatim>\<open>f(row.get(k, "")) if pd.notna(row.get(k)) else ""\<close> (lines 618 to 620).\<close>

definition kpi_field :: "pydict \<Rightarrow> string \<Rightarrow> (pyval \<Rightarrow> py_error + string) \<Rightarrow> py_error + string" where
  "kpi_field row k f =
     (case isna_truth (row_get row k) of
        Inl err \<Rightarrow> Inl err
      | Inr True \<Rightarrow> Inr []
      | Inr False \<Rightarrow> f (dict_get row k (VStr [])))"

text \<open>\<^verbatim>\<open>extract_kpi_from_record\<close> (lines 615 to 627): the rows it appends.\<close>

definition extract_kpi_from_record :: "pydict \<Rightarrow> pyval \<Rightarrow> py_error + pydict list" where
  "extract_kpi_from_record row kpi_data =
     (case notna_dict kpi_data of
        Inl err \<Rightarrow> Inl err
      | Inr False \<Rightarrow> Inr []
      | Inr True \<Rightarrow>
          (case kpi_field row ''socialName'' (\<lambda>v. Inr (py_str v)) of
             Inl err \<Rightarrow> Inl err
           | Inr company_name \<Rightarrow>
          (case kpi_field row ''siren'' (\<lambda>v. Inr (py_str v)) of
             Inl err \<Rightarrow> Inl err
           | Inr siren \<Rightarrow>
          (case kpi_field row ''siret'' format_siret of
             Inl err \<Rightarrow> Inl err
           | Inr siret \<Rightarrow>
               (let base_kpi = [(''company_name'', VStr company_name), (''siren'', VStr siren),
                                (''siret'', VStr siret)]
                in Inr (concat (map (\<lambda>item.
                          case snd item of
                            VDict year_kpis \<Rightarrow>
                              [dict_update (dict_set base_kpi ''year'' (VStr (fst item))) year_kpis]
                          | _ \<Rightarrow> [])
                        (case kpi_data of VDict d \<Rightarrow> d | _ \<Rightarrow> []))))))))"

text \<open>
  One candidate location gives \<open>Inr (Some rows)\<close> when its test passes (the loop then
  goes on to the next record), \<open>Inr None\<close> when the next candidate is to be tried, and
  \<open>Inl err\<close> when an exception leaves the method.
\<close>

definition kpi_flat :: "string list \<Rightarrow> pydict \<Rightarrow> string \<Rightarrow> py_error + pydict list option" where
  "kpi_flat cols row col =
     (if col \<in> set cols then
        (let kpi_data = row_get row col
         in case notna_dict kpi_data of
              Inl err \<Rightarrow> Inl err
            | Inr True \<Rightarrow> map_sum id Some (extract_kpi_from_record row kpi_data)
            | Inr False \<Rightarrow> Inr None)
      else Inr None)"

text \<open>\<^verbatim>\<open>kpi_data and isinstance(kpi_data, dict)\<close> for the \<^verbatim>\<open>kpi\<close> of a container.\<close>

definition kpi_of_container :: "pydict \<Rightarrow> pydict \<Rightarrow> py_error + pydict list option" where
  "kpi_of_container row container =
     (let kpi_data = dict_get container ''kpi'' VNone
      in if py_truthy kpi_data \<and> is_dict kpi_data
         then map_sum id Some (extract_kpi_from_record row kpi_data)
         else Inr None)"

text \<open>
  The parameter \<open>loads\<close> stands for \<^verbatim>\<open>json.loads\<close>: \<open>None\<close> when it raises
  \<^verbatim>\<open>JSONDecodeError\<close>.
\<close>

definition kpi_nested ::
  "(string \<Rightarrow> pyval option) \<Rightarrow> string list \<Rightarrow> pydict \<Rightarrow> string \<Rightarrow> py_error + pydict list option"
where
  "kpi_nested loads cols row col =
     (if col \<in> set cols then
        (let container = row_get row col
         in case isna_truth container of
              Inl err \<Rightarrow> Inl err
            | Inr True \<Rightarrow> Inr None
            | Inr False \<Rightarrow>
                (case container of
                   VDict d \<Rightarrow> kpi_of_container row d
                 | VStr s \<Rightarrow>
                     if s \<noteq> [] then
                       (case loads s of
                          Some (VDict d) \<Rightarrow> kpi_of_container row d
                        | _ \<Rightarrow> Inr None)
                     else Inr None
                 | _ \<Rightarrow> Inr None))
      else Inr None)"

fun kpi_chain :: "(py_error + pydict list option) list \<Rightarrow> py_error + pydict list" where
  "kpi_chain [] = Inr []"
| "kpi_chain (c # cs) =
     (case c of
        Inl err \<Rightarrow> Inl err
      | Inr (Some rows) \<Rightarrow> Inr rows
      | Inr None \<Rightarrow> kpi_chain cs)"

text \<open>The body of the loop over the records (lines 629 to 699).\<close>

definition kpi_rows ::
  "(string \<Rightarrow> pyval option) \<Rightarrow> string list \<Rightarrow> pydict \<Rightarrow> py_error + pydict list" where
  "kpi_rows loads cols row =
     kpi_chain
       [kpi_flat cols row ''kpi'',
        kpi_flat cols row ''computed.kpi'',
        kpi_nested loads cols row ''computed'',
        kpi_flat cols row ''v1legacy.kpi'',
        kpi_nested loads cols row ''v1legacy'']"

definition kpi_records :: "(string \<Rightarrow> pyval option) \<Rightarrow> dataframe \<Rightarrow> py_error + pydict list" where
  "kpi_records loads chunk_df =
     (case map_result (kpi_rows loads (df_columns chunk_df)) (df_rows chunk_df) of
        Inl err \<Rightarrow> Inl err
      | Inr rs \<Rightarrow> Inr (concat rs))"

subsection \<open>Forwarding the embedded articles\<close>










text \<open>The identity key of an output row.\<close>

definition row_identity :: "pydict \<Rightarrow> pyval \<times> pyval \<times> pyval" where
  "row_identity r =
     (dict_get r ''company_name'' VNone, dict_get r ''siren'' VNone, dict_get r ''siret'' VNone)"

section \<open>Predicates used to state the claims\<close>




text \<open>
  The first of the given columns that the table has and that holds a value other than
  None and NaN.
\<close>

definition first_usable :: "dataframe \<Rightarrow> string list \<Rightarrow> string option" where
  "first_usable df cols =
     find (\<lambda>c. c \<in> set (df_columns df) \<and> \<not> series_blank (safe_get df c (VStr []))) cols"



section \<open>Facts about digits, the float parser and format_siret\<close>

lemma is_digit_digit_char: "d < 10 \<Longrightarrow> is_digit (digit_char d)"
  by (simp add: is_digit_def digit_char_def)

lemma digit_val_digit_char: "d < 10 \<Longrightarrow> digit_val (digit_char d) = d"
  by (simp add: digit_val_def digit_char_def)

lemma digit_char_digit_val: "is_digit c \<Longrightarrow> digit_char (digit_val c) = c"
  by (simp add: is_digit_def digit_val_def digit_char_def)

lemma digit_val_less: "is_digit c \<Longrightarrow> digit_val c < 10"
  by (auto simp add: is_digit_def digit_val_def)

lemma digit_char_zero: "digit_char 0 = CHR ''0''"
  by (rule of_char_eq_iff [where ?'a = nat, THEN iffD1]) (simp add: digit_char_def)

lemma digits_nat_all_digits: "list_all is_digit (digits_nat n)"
proof (induction n rule: digits_nat.induct)
  case (1 n)
  show ?case
  proof (cases "n < 10")
    case True
    then show ?thesis by (simp add: digits_nat.simps [of n] is_digit_digit_char)
  next
    case False
    with 1 show ?thesis by (simp add: digits_nat.simps [of n] is_digit_digit_char)
  qed
qed

lemma nat_of_digits_snoc: "nat_of_digits (s @ [c]) = 10 * nat_of_digits s + digit_val c"
  by (simp add: nat_of_digits_def)

lemma nat_of_digits_Nil: "nat_of_digits [] = 0"
  by (simp add: nat_of_digits_def)

lemma nat_of_digits_digits_nat: "nat_of_digits (digits_nat n) = n"
proof (induction n rule: digits_nat.induct)
  case (1 n)
  show ?case
  proof (cases "n < 10")
    case True
    then show ?thesis
      by (simp add: digits_nat.simps [of n] nat_of_digits_def digit_val_digit_char)
  next
    case False
    with 1 show ?thesis
      by (simp add: digits_nat.simps [of n] nat_of_digits_snoc digit_val_digit_char)
  qed
qed

lemma length_digits_nat: "n < 10 ^ k \<Longrightarrow> 0 < k \<Longrightarrow> length (digits_nat n) \<le> k"
proof (induction k arbitrary: n)
  case 0
  then show ?case by simp
next
  case (Suc k)
  show ?case
  proof (cases "n < 10")
    case True
    then show ?thesis by (simp add: digits_nat.simps [of n])
  next
    case False
    then have k: "0 < k" using Suc.prems by (cases k) auto
    have "n div 10 < 10 ^ k" using Suc.prems by (simp add: less_mult_imp_div_less mult.commute)
    from Suc.IH [OF this k] False show ?thesis by (simp add: digits_nat.simps [of n])
  qed
qed

lemma nat_of_digits_less: "list_all is_digit s \<Longrightarrow> nat_of_digits s < 10 ^ length s"
proof (induction s rule: rev_induct)
  case Nil
  then show ?case by (simp add: nat_of_digits_def)
next
  case (snoc c s)
  then have "nat_of_digits s < 10 ^ length s" and "digit_val c < 10"
    by (simp_all add: digit_val_less)
  then show ?case by (simp add: nat_of_digits_snoc)
qed

lemma digits_nat_nonempty: "digits_nat n \<noteq> []"
  by (simp add: digits_nat.simps [of n])

lemma zfill_digits_roundtrip:
  "list_all is_digit s \<Longrightarrow> s \<noteq> [] \<Longrightarrow> zfill (length s) (digits_nat (nat_of_digits s)) = s"
proof (induction s rule: rev_induct)
  case Nil
  then show ?case by simp
next
  case (snoc c s)
  then have c: "is_digit c" and s: "list_all is_digit s" by simp_all
  let ?v = "nat_of_digits s"
  show ?case
  proof (cases "?v = 0")
    case True
    have zs: "replicate (length s) (CHR ''0'') = s"
    proof (cases "s = []")
      case True then show ?thesis by simp
    next
      case False
      from snoc.IH [OF s False] True
      have a: "replicate (length s - 1) (CHR ''0'') @ [CHR ''0''] = s"
        by (simp add: zfill_def digits_nat.simps [of 0] digit_char_zero)
      have b: "replicate (length s - 1) (CHR ''0'') @ [CHR ''0'']
                 = replicate (Suc (length s - 1)) (CHR ''0'')"
        by (simp add: replicate_append_same)
      have c: "Suc (length s - 1) = length s" using False by simp
      from a b c show ?thesis by metis
    qed
    have "digits_nat (nat_of_digits (s @ [c])) = [c]"
      using True c by (simp add: nat_of_digits_snoc digits_nat.simps [of "digit_val c"]
          digit_val_less digit_char_digit_val)
    then show ?thesis using zs by (simp add: zfill_def)
  next
    case False
    then have ne: "s \<noteq> []" by (auto simp add: nat_of_digits_def)
    have d: "digits_nat (nat_of_digits (s @ [c])) = digits_nat ?v @ [c]"
      using False c
      by (simp add: nat_of_digits_snoc digits_nat.simps [of "10 * ?v + digit_val c"]
          digit_val_less digit_char_digit_val)
    from snoc.IH [OF s ne] show ?thesis by (simp add: d zfill_def)
  qed
qed

lemma zfill_length: "length s \<le> w \<Longrightarrow> length (zfill w s) = w"
  by (simp add: zfill_def)

lemma zfill_all_digits: "list_all is_digit s \<Longrightarrow> list_all is_digit (zfill w s)"
  by (auto simp add: zfill_def list_all_iff is_digit_def)

lemma nat_of_digits_zfill: "nat_of_digits (zfill w s) = nat_of_digits s"
proof -
  have "foldl (\<lambda>acc c. 10 * acc + digit_val c) 0 (replicate k (CHR ''0'')) = 0" for k
    by (induction k) (simp_all add: digit_val_def)
  then show ?thesis by (simp add: zfill_def nat_of_digits_def)
qed

lemma fmt014_in_range:
  assumes "0 \<le> n" "n < 10 ^ 14"
  shows "fmt014 n = zfill 14 (str_int n)" "is_siret14 (fmt014 n)"
    "int (nat_of_digits (fmt014 n)) = n"
proof -
  have lt: "nat n < 10 ^ 14" using assms by (simp add: nat_less_iff)
  have len: "length (digits_nat (nat n)) \<le> 14"
    using length_digits_nat [OF lt] by simp
  show "fmt014 n = zfill 14 (str_int n)" using assms by (simp add: fmt014_def str_int_def)
  show "is_siret14 (fmt014 n)"
    using assms len
    by (simp add: fmt014_def is_siret14_def zfill_length zfill_all_digits digits_nat_all_digits)
  show "int (nat_of_digits (fmt014 n)) = n"
    using assms by (simp add: fmt014_def nat_of_digits_zfill nat_of_digits_digits_nat)
qed

lemma fmt014_siret14:
  assumes "is_siret14 s"
  shows "fmt014 (int (nat_of_digits s)) = s"
proof -
  from assms have d: "list_all is_digit s" and l: "length s = 14" and ne: "s \<noteq> []"
    by (auto simp add: is_siret14_def)
  from zfill_digits_roundtrip [OF d ne] l show ?thesis by (simp add: fmt014_def)
qed

lemma not_space_digit: "is_digit c \<Longrightarrow> \<not> is_space c"
  by (auto simp add: is_digit_def is_space_def Let_def)

lemma py_strip_digits: "list_all is_digit s \<Longrightarrow> py_strip s = s"
proof (cases s rule: rev_cases)
  case Nil
  then show ?thesis by (simp add: py_strip_def)
next
  case (snoc xs x)
  assume d: "list_all is_digit s"
  then have "dropWhile is_space s = s"
    by (cases s) (simp_all add: not_space_digit)
  moreover have "dropWhile is_space (rev s) = rev s"
    using d snoc by (simp add: not_space_digit)
  ultimately show ?thesis by (simp add: py_strip_def)
qed

lemma digit_not_special:
  assumes "is_digit c"
  shows "c \<noteq> CHR ''_''" "c \<noteq> CHR ''-''" "c \<noteq> CHR ''+''" "c \<noteq> CHR ''.''"
proof -
  have "\<not> is_digit (CHR ''_'')" "\<not> is_digit (CHR ''-'')" "\<not> is_digit (CHR ''+'')"
    "\<not> is_digit (CHR ''.'')"
    by (simp_all add: is_digit_def)
  with assms show "c \<noteq> CHR ''_''" "c \<noteq> CHR ''-''" "c \<noteq> CHR ''+''" "c \<noteq> CHR ''.''"
    by blast+
qed

lemma underscores_ok_digits:
  "list_all is_digit s \<Longrightarrow> prev \<noteq> CHR ''_'' \<Longrightarrow> underscores_ok prev s"
proof (induction s arbitrary: prev)
  case Nil
  then show ?case by simp
next
  case (Cons c s)
  then have "c \<noteq> CHR ''_''" by (simp add: digit_not_special)
  with Cons show ?case by simp
qed

lemma filter_underscore_digits:
  "list_all is_digit s \<Longrightarrow> filter (\<lambda>c. c \<noteq> CHR ''_'') s = s"
  by (induction s) (simp_all add: digit_not_special)

lemma to_lower_digit: "is_digit c \<Longrightarrow> to_lower c = c"
  by (simp add: is_digit_def to_lower_def)

lemma split_sign_digits: "list_all is_digit s \<Longrightarrow> split_sign s = (False, s)"
  by (cases s) (simp_all add: split_sign_def digit_not_special)

lemma parse_decimal_digits:
  "list_all is_digit s \<Longrightarrow> s \<noteq> [] \<Longrightarrow> parse_decimal s = Some (LitDec (nat_of_digits s) 0)"
proof -
  assume d: "list_all is_digit s" and ne: "s \<noteq> []"
  have t: "takeWhile is_digit s = s" and dr: "dropWhile is_digit s = []"
    using d by (simp_all add: list_all_iff)
  show ?thesis using ne by (simp add: parse_decimal_def t dr parse_exponent_def)
qed

lemma parse_float_lit_digits:
  assumes "list_all is_digit s" "s \<noteq> []"
  shows "parse_float_lit s = Some (False, LitDec (nat_of_digits s) 0)"
proof -
  have m: "map to_lower s = s"
    using assms(1) by (induction s) (simp_all add: to_lower_digit)
  have nd: "\<not> list_all is_digit ''inf''" "\<not> list_all is_digit ''infinity''"
    "\<not> list_all is_digit ''nan''"
    by (simp_all add: is_digit_def)
  have neq: "s \<noteq> ''inf''" "s \<noteq> ''infinity''" "s \<noteq> ''nan''"
    using assms(1) nd by auto
  show ?thesis
    using assms neq
    by (simp add: parse_float_lit_def underscores_ok_digits filter_underscore_digits
        split_sign_digits m parse_decimal_digits)
qed

lemma bit_length_le: "n < 2 ^ k \<Longrightarrow> bit_length n \<le> k"
proof (induction k arbitrary: n)
  case 0
  then show ?case by (simp add: bit_length.simps [of 0])
next
  case (Suc k)
  then have "n div 2 < 2 ^ k" by simp
  from Suc.IH [OF this] show ?case by (simp add: bit_length.simps [of n])
qed

lemma round_half_even_one: "round_half_even a (Suc 0) = a"
  by (simp add: round_half_even_def)

lemma two53_le_overflow: "2 ^ 53 \<le> double_overflow"
  unfolding double_overflow_def by (rule power_increasing) simp_all

lemma trunc_double_exact:
  assumes "a < 2 ^ 53"
  shows "trunc_double a (Suc 0) = Some a"
proof -
  have k: "bit_length a \<le> 53" using assms by (rule bit_length_le)
  have "a < double_overflow" using assms two53_le_overflow by (rule order.strict_trans2)
  then have big: "\<not> double_overflow \<le> a" by (simp only: not_le)
  show ?thesis
  proof (cases "bit_length a = 53")
    case True
    then show ?thesis using big by (simp add: trunc_double_def round_half_even_one)
  next
    case False
    with k have "bit_length a < 53" by simp
    then show ?thesis by (simp add: trunc_double_def round_half_even_one)
  qed
qed

lemma int_of_float_str_digits:
  assumes "list_all is_digit s" "s \<noteq> []" "length s \<le> 15"
  shows "int_of_float_str s = Inr (int (nat_of_digits s))"
proof -
  have "nat_of_digits s < 10 ^ length s" using assms(1) by (rule nat_of_digits_less)
  also have "(10::nat) ^ length s \<le> 10 ^ 15"
    by (rule power_increasing) (use assms(3) in simp_all)
  also have "(10::nat) ^ 15 < 2 ^ 53" by simp
  finally have "nat_of_digits s < 2 ^ 53" .
  then show ?thesis
    using assms by (simp add: int_of_float_str_def parse_float_lit_digits trunc_double_exact)
qed

lemma format_siret_siret14:
  assumes "is_siret14 s"
  shows "format_siret (VStr s) = Inr s"
proof -
  from assms have d: "list_all is_digit s" and l: "length s = 14" and ne: "s \<noteq> []"
    by (auto simp add: is_siret14_def)
  have nn: "s \<noteq> ''nan''" using l by auto
  show ?thesis
    using ne nn l d
    by (simp add: format_siret_def py_strip_digits int_of_float_str_digits
        fmt014_siret14 [OF assms])
qed

section \<open>Claims about format_siret\<close>

lemma format_siret_int:
  "format_siret (VInt n) = Inr (fmt014 n)"
  by (simp add: format_siret_def)

lemma format_siret_missing:
  "format_siret (VStr []) = Inr []" "format_siret VNone = Inr []"
  "format_siret VNaN = Inr []" "format_siret (VStr ''nan'') = Inr []"
  by (simp_all add: format_siret_def)

text \<open>
  Claim C4. For every integer \<open>n\<close> with \<open>0 \<le> n < 10 ^ 14\<close>, \<^verbatim>\<open>format_siret\<close> returns the
  decimal numeral of \<open>n\<close> padded with zeros on the left to 14 characters: 14 digits that
  denote \<open>n\<close>. For the empty string, None, NaN and the string \<^verbatim>\<open>nan\<close> it returns the empty
  string. A string of 14 decimal digits is returned unchanged.
\<close>

theorem format_siret_postconditions:
  "(\<forall>n. 0 \<le> n \<and> n < 10 ^ 14 \<longrightarrow>
      format_siret (VInt n) = Inr (zfill 14 (str_int n))
      \<and> is_siret14 (zfill 14 (str_int n))
      \<and> int (nat_of_digits (zfill 14 (str_int n))) = n)
   \<and> format_siret (VStr []) = Inr []
   \<and> format_siret VNone = Inr []
   \<and> format_siret VNaN = Inr []
   \<and> format_siret (VStr ''nan'') = Inr []
   \<and> (\<forall>s. is_siret14 s \<longrightarrow> format_siret (VStr s) = Inr s)"
proof -
  have a: "format_siret (VInt n) = Inr (zfill 14 (str_int n))
      \<and> is_siret14 (zfill 14 (str_int n))
      \<and> int (nat_of_digits (zfill 14 (str_int n))) = n"
    if "0 \<le> n \<and> n < 10 ^ 14" for n
  proof -
    from that have r: "0 \<le> n" "n < 10 ^ 14" by simp_all
    from fmt014_in_range [OF r] format_siret_int [of n] show ?thesis by simp
  qed
  from a format_siret_missing format_siret_siret14 show ?thesis by blast
qed

theorem format_siret_postconditions_witness:
  "(0::int) \<le> 42 \<and> (42::int) < 10 ^ 14
   \<and> format_siret (VInt 42) = Inr ''00000000000042''
   \<and> is_siret14 ''12345678901234''
   \<and> format_siret (VStr ''12345678901234'') = Inr ''12345678901234''"
proof -
  have s: "is_siret14 ''12345678901234''" by (simp add: is_siret14_def is_digit_def)
  have r: "replicate 12 (CHR ''0'') = ''000000000000''"
    by (simp add: eval_nat_numeral)
  have z: "zfill 14 (str_int 42) = ''00000000000042''"
    by (simp add: zfill_def str_int_def digits_nat.simps [of 42] digits_nat.simps [of 4]
        digit_char_def char_of_eq_iff r)
  from format_siret_postconditions have
    "format_siret (VInt 42) = Inr (zfill 14 (str_int 42))"
    "format_siret (VStr ''12345678901234'') = Inr ''12345678901234''"
    using s by simp_all
  with s z show ?thesis by simp
qed

lemma format_siret_NA: "format_siret (VStr ''N/A'') = Inr ''N/A''"
  by (simp add: format_siret_def py_strip_def is_space_def int_of_float_str_def
      parse_float_lit_def is_digit_def split_sign_def to_lower_def parse_decimal_def)

text \<open>
  Claim C5, as stated, fails: a string that does not convert to a number is returned as
  it is, so the result can be neither empty nor 14 digits.
\<close>

theorem format_siret_not_always_14_digits:
  "format_siret (VStr ''N/A'') = Inr ''N/A'' \<and> \<not> (''N/A'' = [] \<or> is_siret14 ''N/A'')"
  by (simp add: format_siret_NA is_siret14_def)

text \<open>
  Claim C8 against the code: \<^verbatim>\<open>pd.isna(siret)\<close> is evaluated before the \<^verbatim>\<open>try\<close>, and on a
  list of two entries its truth value raises ValueError, which leaves \<^verbatim>\<open>format_siret\<close>.
\<close>

theorem format_siret_raises_on_list:
  "format_siret (VList [VStr ''12345678901234'', VStr ''98765432109876'']) = Inl ValueError"
  by (simp add: format_siret_def)

lemma length_digits_nat_ge: "10 ^ k \<le> n \<Longrightarrow> k < length (digits_nat n)"
proof (induction k arbitrary: n)
  case 0
  show ?case using digits_nat_nonempty [of n] by (cases "digits_nat n") simp_all
next
  case (Suc k)
  then have big: "\<not> n < 10"
    by (metis One_nat_def le_trans not_less one_le_numeral one_le_power power_Suc0_right
        power_increasing le_add1 plus_1_eq_Suc)
  from Suc.prems have "10 ^ k \<le> n div 10" by (simp add: less_eq_div_iff_mult_less_eq mult.commute)
  from Suc.IH [OF this] big show ?case by (simp add: digits_nat.simps [of n])
qed

lemma fmt014_siret14_iff: "is_siret14 (fmt014 n) \<longleftrightarrow> 0 \<le> n \<and> n < 10 ^ 14"
proof
  assume s: "is_siret14 (fmt014 n)"
  have nonneg: "0 \<le> n"
  proof (rule ccontr)
    assume "\<not> 0 \<le> n"
    then have "fmt014 n = CHR ''-'' # zfill 13 (digits_nat (nat (- n)))" by (simp add: fmt014_def)
    with s have "is_digit (CHR ''-'')" by (simp add: is_siret14_def)
    then show False by (simp add: is_digit_def)
  qed
  have "n < 10 ^ 14"
  proof (rule ccontr)
    assume "\<not> n < 10 ^ 14"
    then have "10 ^ 14 \<le> nat n" by (simp add: le_nat_iff)
    from length_digits_nat_ge [OF this] have "14 < length (digits_nat (nat n))" .
    with nonneg have "14 < length (fmt014 n)" by (simp add: fmt014_def zfill_def)
    with s show False by (simp add: is_siret14_def)
  qed
  with nonneg show "0 \<le> n \<and> n < 10 ^ 14" by simp
next
  assume "0 \<le> n \<and> n < 10 ^ 14"
  then show "is_siret14 (fmt014 n)" using fmt014_in_range(2) [of n] by simp
qed

text \<open>
  Claim C5, amended. Whenever \<^verbatim>\<open>format_siret\<close> returns, the result is the empty string,
  or the zero-padded numeral \<open>fmt014 n\<close> of the integer \<open>n\<close> the input converts to (the
  int itself, or \<^verbatim>\<open>int(float(...))\<close> of its stripped string form), which is a string of
  14 digits exactly when \<open>0 \<le> n < 10 ^ 14\<close>, or the stripped string form of an input
  that \<^verbatim>\<open>int(float(...))\<close> rejects, returned unchanged.
\<close>

theorem format_siret_result_shape:
  assumes "format_siret v = Inr s"
  shows "s = []
    \<or> (\<exists>n. (v = VInt n \<or> (\<exists>b. v = VBool b \<and> n = (if b then 1 else 0))
              \<or> int_of_float_str (py_strip (py_str v)) = Inr n)
           \<and> s = fmt014 n \<and> (is_siret14 s \<longleftrightarrow> 0 \<le> n \<and> n < 10 ^ 14))
    \<or> (s = py_strip (py_str v) \<and> (\<exists>e. int_of_float_str s = Inl e))"
proof -
  let ?t = "py_strip (py_str v)"
  have gen: "s = []
    \<or> (\<exists>n. (v = VInt n \<or> (\<exists>b. v = VBool b \<and> n = (if b then 1 else 0))
              \<or> int_of_float_str ?t = Inr n) \<and> s = fmt014 n)
    \<or> (s = ?t \<and> (\<exists>e. int_of_float_str s = Inl e))"
    using assms
    by (cases v; cases "int_of_float_str ?t")
       (auto simp add: format_siret_def Let_def split: sum.splits bool.splits if_splits)
  then show ?thesis using fmt014_siret14_iff by blast
qed

theorem format_siret_result_shape_witness:
  "format_siret (VStr ''N/A'') = Inr ''N/A''
   \<and> (''N/A'' = []
      \<or> (\<exists>n. (VStr ''N/A'' = VInt n \<or> (\<exists>b. VStr ''N/A'' = VBool b \<and> n = (if b then 1 else 0))
                \<or> int_of_float_str (py_strip (py_str (VStr ''N/A''))) = Inr n)
             \<and> ''N/A'' = fmt014 n \<and> (is_siret14 ''N/A'' \<longleftrightarrow> 0 \<le> n \<and> n < 10 ^ 14))
      \<or> (''N/A'' = py_strip (py_str (VStr ''N/A'')) \<and> (\<exists>e. int_of_float_str ''N/A'' = Inl e)))"
  using format_siret_result_shape [OF format_siret_NA] format_siret_NA by blast
section \<open>Claims about the article and signal expanders\<close>

lemma isna_truth_not_list: "\<not> is_list v \<Longrightarrow> isna_truth v \<noteq> Inl err"
  by (cases v) simp_all



lemma dict_get_dict_set_other: "k \<noteq> k' \<Longrightarrow> dict_get (dict_set d k' v) k dflt = dict_get d k dflt"
  by (induction d) (auto simp add: dict_get_def)

lemma dict_get_dict_set_same: "dict_get (dict_set d k v) k dflt = v"
  by (induction d) (auto simp add: dict_get_def)

lemma dict_get_dict_update_other:
  "k \<notin> fst ` set other \<Longrightarrow> dict_get (dict_update d other) k dflt = dict_get d k dflt"
proof (induction other arbitrary: d)
  case Nil
  then show ?case by (simp add: dict_update_def)
next
  case (Cons kv other)
  then have "k \<noteq> fst kv" and "k \<notin> fst ` set other" by auto
  with Cons.IH [of "dict_set d (fst kv) (snd kv)"] show ?case
    by (simp add: dict_update_def dict_get_dict_set_other)
qed

lemma row_identity_create_article_row:
  "row_identity (create_article_row row b) = row_identity b"
  by (simp add: row_identity_def create_article_row_def Let_def dict_get_dict_update_other)

lemma row_identity_create_signal_row:
  "row_identity (create_signal_row row b) = row_identity b"
  by (simp add: row_identity_def create_signal_row_def Let_def dict_get_dict_update_other)




lemma isna_truth_two: "isna_truth (VList (x # y # zs)) = Inl ValueError"
  by simp

lemma safe_get_list_two: "safe_get_list (VList (x # y # zs)) = Some (x # y # zs)"
  by (simp add: safe_get_list_def)

lemma safe_get_list_empty: "safe_get_list (VList []) = None" "safe_get_list VNone = None"
  "safe_get_list VNaN = None"
  by (simp_all add: safe_get_list_def)




lemma safe_get_list_three: "safe_get_list (VList (x # y # zs)) = Some (x # y # zs)"
  by (simp add: safe_get_list_def)


lemma safe_join_nil: "safe_join (VList []) = []"
  by (simp add: safe_join_def)

text \<open>
  Claim C10 against the code: for a signal row whose \<^verbatim>\<open>companies\<close> holds two references,
  two rows are emitted and \<^verbatim>\<open>companies_count\<close> is 0 in both, not 2. Inside
  \<^verbatim>\<open>_create_signal_row\<close> the test \<^verbatim>\<open>pd.isna\<close> on a list of two raises, \<^verbatim>\<open>is_not_na\<close> answers
  False, and the list is replaced by the default.
\<close>

theorem signal_companies_count_zero:
  "map (\<lambda>r. (dict_get r ''siren'' VNone, dict_get r ''companies_count'' VNone))
     (case signal_rows
             [(''companies'', VList [VDict [(''id'', VStr ''111111111'')],
                                     VDict [(''id'', VStr ''222222222'')]])] of
        Inr rows \<Rightarrow> rows | Inl err \<Rightarrow> [])
   = [(VStr ''111111111'', VInt 0), (VStr ''222222222'', VInt 0)]"
proof -
  let ?cs = "[VDict [(''id'', VStr ''111111111'')], VDict [(''id'', VStr ''222222222'')]]"
  let ?row = "[(''companies'', VList ?cs)]"
  have c: "signal_companies ?row = ?cs"
    by (simp add: signal_companies_def row_get_def dict_get_def safe_get_list_two list_falsy_def)
  have s: "signal_sirets ?row = []"
    by (simp add: signal_sirets_def row_get_def dict_get_def safe_get_list_empty list_falsy_def)
  have n: "signal_safe_get_list (row_get ?row ''companies'') = []"
    by (simp add: signal_safe_get_list_def is_not_na_def row_get_def dict_get_def)
  have cnt: "dict_get (create_signal_row ?row b) ''companies_count'' VNone = VInt 0" for b
    by (simp add: create_signal_row_def Let_def n dict_update_def dict_get_dict_set_same
        dict_get_dict_set_other)
  have sir: "dict_get (create_signal_row ?row b) ''siren'' VNone = dict_get b ''siren'' VNone" for b
    by (simp add: create_signal_row_def Let_def dict_get_dict_update_other)
  show ?thesis
    by (simp add: signal_rows_def c s Let_def cnt sir signal_company_index_def)
       (simp add: dict_get_def)
qed

lemma is_siret14_example: "is_siret14 ''12345678901234''"
  by (simp add: is_siret14_def is_digit_def)

text \<open>
  Claim C9 against the code: an article row whose company reference has a null
  \<^verbatim>\<open>label\<close> gives an output row whose \<^verbatim>\<open>company_name\<close> is None; and a KPI year whose
  metrics hold a null \<^verbatim>\<open>siren\<close> gives a row of \<^verbatim>\<open>07_kpi_data\<close> whose \<^verbatim>\<open>siren\<close> is None,
  because the metrics are merged over the identity key.
\<close>

theorem article_identity_null_label:
  "map row_identity
     (case article_rows
             [(''title'', VStr ''T''),
              (''companies'', VList [VDict [(''label'', VNone), (''siren'', VStr ''123456789''),
                                            (''siret'', VStr ''12345678901234'')]])] of
        Inr rows \<Rightarrow> rows | Inl err \<Rightarrow> [])
   = [(VNone, VStr ''123456789'', VStr ''12345678901234'')]
   \<and> map row_identity
     (case kpi_rows loads [''socialName'', ''kpi'']
             [(''socialName'', VStr ''Acme''),
              (''kpi'', VDict [(''2022'', VDict [(''siren'', VNone), (''ca'', VInt 10)])])] of
        Inr rows \<Rightarrow> rows | Inl err \<Rightarrow> [])
   = [(VStr ''Acme'', VNone, VStr [])]"
proof -
  let ?c = "VDict [(''label'', VNone), (''siren'', VStr ''123456789''),
                   (''siret'', VStr ''12345678901234'')]"
  let ?row = "[(''title'', VStr ''T''), (''companies'', VList [?c])]"
  have c: "article_companies ?row = [?c]"
    by (simp add: article_companies_def row_get_def dict_get_def safe_get_list_def list_falsy_def)
  have b: "article_base_index ?c = Inr [(''company_name'', VNone), (''siren'', VStr ''123456789''),
      (''siret'', VStr ''12345678901234'')]"
    by (simp add: article_base_index_def dict_get_def format_siret_siret14 [OF is_siret14_example])
  have a: "map row_identity (case article_rows ?row of Inr rows \<Rightarrow> rows | Inl err \<Rightarrow> [])
      = [(VNone, VStr ''123456789'', VStr ''12345678901234'')]"
    by (simp add: article_rows_def c b row_identity_create_article_row)
       (simp add: row_identity_def dict_get_def)
  have k: "map row_identity
     (case kpi_rows loads [''socialName'', ''kpi'']
             [(''socialName'', VStr ''Acme''),
              (''kpi'', VDict [(''2022'', VDict [(''siren'', VNone), (''ca'', VInt 10)])])] of
        Inr rows \<Rightarrow> rows | Inl err \<Rightarrow> [])
      = [(VStr ''Acme'', VNone, VStr [])]"
    by (simp add: kpi_rows_def kpi_flat_def notna_dict_def extract_kpi_from_record_def
        kpi_field_def row_get_def dict_get_def dict_update_def row_identity_def)
  from a k show ?thesis by simp
qed
section \<open>Claims about the company extractor\<close>

text \<open>
  Claim C6 against the code: a record whose top-level \<^verbatim>\<open>kpi\<close> is the empty mapping and whose
  \<^verbatim>\<open>computed\<close> container holds a \<^verbatim>\<open>kpi\<close> with one year gives no row, because the first
  candidate accepts any dict and ends the search. Without the \<^verbatim>\<open>kpi\<close> column the same
  container gives its row, and an empty \<^verbatim>\<open>kpi\<close> inside \<^verbatim>\<open>computed\<close> does let the search go
  on to \<^verbatim>\<open>v1legacy\<close>: the nested candidates test for a non-empty mapping, the flat ones
  do not.
\<close>

theorem kpi_empty_candidate_stops_chain:
  "kpi_rows loads [''kpi'', ''computed'']
      [(''kpi'', VDict []),
       (''computed'', VDict [(''kpi'', VDict [(''2022'', VDict [(''ca'', VInt 10)])])])]
     = Inr []
   \<and> kpi_rows loads [''computed'']
      [(''computed'', VDict [(''kpi'', VDict [(''2022'', VDict [(''ca'', VInt 10)])])])]
     = Inr [[(''company_name'', VStr []), (''siren'', VStr []), (''siret'', VStr []),
             (''year'', VStr ''2022''), (''ca'', VInt 10)]]
   \<and> kpi_rows loads [''computed'', ''v1legacy'']
      [(''computed'', VDict [(''kpi'', VDict [])]),
       (''v1legacy'', VDict [(''kpi'', VDict [(''2022'', VDict [(''ca'', VInt 10)])])])]
     = Inr [[(''company_name'', VStr []), (''siren'', VStr []), (''siret'', VStr []),
             (''year'', VStr ''2022''), (''ca'', VInt 10)]]"
  by (simp add: kpi_rows_def kpi_flat_def kpi_nested_def kpi_of_container_def notna_dict_def
      extract_kpi_from_record_def kpi_field_def row_get_def dict_get_def dict_update_def)

text \<open>
  Claim C7, as stated, fails: in a batch where another record has a \<^verbatim>\<open>socialName\<close>, a
  record without one gets the empty string although its \<^verbatim>\<open>label\<close> is \<^verbatim>\<open>Foo\<close>; and a
  record whose \<^verbatim>\<open>socialName\<close> is the empty string keeps it.
\<close>

theorem company_name_no_record_fallback:
  "company_names (DataFrame [[(''socialName'', VStr ''Acme''), (''label'', VStr ''Acme SA'')],
                             [(''label'', VStr ''Foo'')]])
     = [VStr ''Acme'', VStr []]
   \<and> company_names (DataFrame [[(''socialName'', VStr []), (''label'', VStr ''Foo'')]])
     = [VStr []]"
  by (simp add: company_names_def company_name_series_def DataFrame_def df_row_def safe_get_def
      series_blank_def row_get_def dict_get_def fillna_def Let_def)

lemma find_holds: "find P xs = Some x \<Longrightarrow> P x"
  by (induction xs) (auto split: if_splits)

lemma alt_name_series_first:
  assumes "find (\<lambda>c. c \<in> set (df_columns df) \<and> \<not> series_blank (safe_get df c (VStr []))) alts
             = Some c"
  shows "alt_name_series df cur alts = safe_get df c (VStr [])"
  using assms
proof (induction alts arbitrary: cur)
  case Nil
  then show ?case by simp
next
  case (Cons a alts)
  then show ?case by (auto simp add: Let_def split: if_splits)
qed

lemma safe_get_present:
  "c \<in> set (df_columns df) \<Longrightarrow> safe_get df c dflt = map (\<lambda>r. row_get r c) (df_rows df)"
  by (simp add: safe_get_def)

text \<open>
  Claim C7, amended. The name column is chosen for the whole batch. When the batch has
  a \<^verbatim>\<open>socialName\<close> column with a value other than None and NaN, the \<^verbatim>\<open>company_name\<close> of
  every record is its own \<^verbatim>\<open>socialName\<close>, the empty string when that is null. When
  every \<^verbatim>\<open>socialName\<close> of the batch is null, the first of \<^verbatim>\<open>label\<close>, \<^verbatim>\<open>name\<close>,
  \<^verbatim>\<open>raison_sociale\<close> that is a column of the batch with a value other than None and NaN
  gives the \<^verbatim>\<open>company_name\<close> of every record.
\<close>

theorem company_name_column_fallback:
  "(''socialName'' \<in> set (df_columns df)
      \<and> \<not> series_blank (safe_get df ''socialName'' (VStr [])) \<longrightarrow>
      company_names df = map (\<lambda>r. fillna (row_get r ''socialName'')) (df_rows df))
   \<and> (\<forall>c. ''socialName'' \<in> set (df_columns df)
        \<and> series_blank (safe_get df ''socialName'' (VStr []))
        \<and> first_usable df [''label'', ''name'', ''raison_sociale''] = Some c \<longrightarrow>
      company_names df = map (\<lambda>r. fillna (row_get r c)) (df_rows df))"
proof (intro conjI allI impI)
  assume "''socialName'' \<in> set (df_columns df)
      \<and> \<not> series_blank (safe_get df ''socialName'' (VStr []))"
  then have p: "safe_get df ''socialName'' (VStr [])
      = map (\<lambda>r. row_get r ''socialName'') (df_rows df)"
    and nb: "\<not> series_blank (safe_get df ''socialName'' (VStr []))"
    by (simp add: safe_get_present, simp)
  from nb show "company_names df = map (\<lambda>r. fillna (row_get r ''socialName'')) (df_rows df)"
    unfolding company_names_def company_name_series_def Let_def by (simp add: p)
next
  fix c
  assume a: "''socialName'' \<in> set (df_columns df)
        \<and> series_blank (safe_get df ''socialName'' (VStr []))
        \<and> first_usable df [''label'', ''name'', ''raison_sociale''] = Some c"
  then have f: "find (\<lambda>c. c \<in> set (df_columns df) \<and> \<not> series_blank (safe_get df c (VStr [])))
      [''label'', ''name'', ''raison_sociale''] = Some c"
    by (simp add: first_usable_def)
  from find_holds [OF f] have "c \<in> set (df_columns df)" by simp
  then have p: "safe_get df c (VStr []) = map (\<lambda>r. row_get r c) (df_rows df)"
    by (rule safe_get_present)
  from a have b: "series_blank (safe_get df ''socialName'' (VStr []))" by simp
  have "company_name_series df = safe_get df c (VStr [])"
    unfolding company_name_series_def Let_def using b alt_name_series_first [OF f] by simp
  then show "company_names df = map (\<lambda>r. fillna (row_get r c)) (df_rows df)"
    by (simp add: company_names_def p)
qed

theorem company_name_column_fallback_witness:
  "''socialName'' \<in> set (df_columns (DataFrame [[(''socialName'', VStr ''Acme''), (''label'', VStr ''Acme SA'')],
                             [(''label'', VStr ''Foo'')]]))
   \<and> \<not> series_blank (safe_get (DataFrame [[(''socialName'', VStr ''Acme''), (''label'', VStr ''Acme SA'')],
                             [(''label'', VStr ''Foo'')]]) ''socialName'' (VStr []))
   \<and> company_names (DataFrame [[(''socialName'', VStr ''Acme''), (''label'', VStr ''Acme SA'')],
                             [(''label'', VStr ''Foo'')]]) = [VStr ''Acme'', VStr []]
   \<and> ''socialName'' \<in> set (df_columns (DataFrame [[(''socialName'', VNone), (''label'', VStr ''Foo'')],
                             [(''label'', VStr ''Bar'')]]))
   \<and> series_blank (safe_get (DataFrame [[(''socialName'', VNone), (''label'', VStr ''Foo'')],
                             [(''label'', VStr ''Bar'')]]) ''socialName'' (VStr []))
   \<and> first_usable (DataFrame [[(''socialName'', VNone), (''label'', VStr ''Foo'')],
                             [(''label'', VStr ''Bar'')]]) [''label'', ''name'', ''raison_sociale'']
        = Some ''label''
   \<and> company_names (DataFrame [[(''socialName'', VNone), (''label'', VStr ''Foo'')],
                             [(''label'', VStr ''Bar'')]]) = [VStr ''Foo'', VStr ''Bar'']"
proof -
  let ?d1 = "DataFrame [[(''socialName'', VStr ''Acme''), (''label'', VStr ''Acme SA'')],
                             [(''label'', VStr ''Foo'')]]"
  let ?d2 = "DataFrame [[(''socialName'', VNone), (''label'', VStr ''Foo'')],
                             [(''label'', VStr ''Bar'')]]"
  have h1: "''socialName'' \<in> set (df_columns ?d1)"
    "\<not> series_blank (safe_get ?d1 ''socialName'' (VStr []))"
    by (simp_all add: DataFrame_def df_row_def safe_get_def series_blank_def row_get_def dict_get_def Let_def)
  have h2: "''socialName'' \<in> set (df_columns ?d2)"
    "series_blank (safe_get ?d2 ''socialName'' (VStr []))"
    "first_usable ?d2 [''label'', ''name'', ''raison_sociale''] = Some ''label''"
    by (simp_all add: DataFrame_def df_row_def safe_get_def series_blank_def row_get_def dict_get_def Let_def
        first_usable_def)
  from company_name_column_fallback [of ?d1] h1
  have "company_names ?d1 = map (\<lambda>r. fillna (row_get r ''socialName'')) (df_rows ?d1)" by blast
  then have r1: "company_names ?d1 = [VStr ''Acme'', VStr []]"
    by (simp add: DataFrame_def df_row_def row_get_def dict_get_def fillna_def Let_def)
  from company_name_column_fallback [of ?d2] h2
  have "company_names ?d2 = map (\<lambda>r. fillna (row_get r ''label'')) (df_rows ?d2)" by blast
  then have r2: "company_names ?d2 = [VStr ''Foo'', VStr ''Bar'']"
    by (simp add: DataFrame_def df_row_def row_get_def dict_get_def fillna_def Let_def)
  from h1 h2 r1 r2 show ?thesis by blast
qed





















end
